theory Spec2Isabelle
  imports Main
begin

unbundle bit_operations_syntax

section \<open>The multivector substrate\<close>

text \<open>
  Modelled from the spec: the type \<open>MultiVector\<close> of the module
  \<open>gscrew.geometric_algebra\<close>, which the screw classes import and which is not part of the
  listing. A multivector of an \<open>n\<close>-dimensional algebra is the list of its \<open>2 ^ n\<close>
  coefficients; the coefficient at index \<open>b\<close> belongs to the basis blade whose factors are
  the set bits of \<open>b\<close> (index 0 is the scalar \<open>s\<close>, index 1 is \<open>e1\<close>, index 2 is \<open>e2\<close>, index 3
  is \<open>e12\<close>, index 4 is \<open>e3\<close>, and so on). Coefficients are taken in a commutative ring, so
  the arithmetic is exact; the rounding of floating-point coefficients is not modelled.
  Python's \<open>==\<close> and \<open>!=\<close> on multivectors are equality of the coefficient lists.
\<close>

type_synonym 'a multivector = "'a list"

text \<open>Modelled from the spec: the grade of a basis blade, the number of its factors.\<close>

fun grade :: "nat \<Rightarrow> nat" where
  "grade b = (if b = 0 then 0 else b mod 2 + grade (b div 2))"

declare grade.simps [simp del]

text \<open>
  Modelled from the spec: the number of transpositions that sort the factors of the
  product of blade \<open>a\<close> with blade \<open>b\<close>, and the sign it gives.
\<close>

fun swaps :: "nat \<Rightarrow> nat \<Rightarrow> nat" where
  "swaps a b = (if a div 2 = 0 then 0 else grade (a div 2 AND b) + swaps (a div 2) b)"

declare swaps.simps [simp del]

definition reorder_sign :: "nat \<Rightarrow> nat \<Rightarrow> 'a::comm_ring_1" where
  "reorder_sign a b = (- 1) ^ swaps a b"

text \<open>Modelled from the spec: \<open>x + y\<close>, \<open>x - y\<close>, \<open>-x\<close> and \<open>c * x\<close> for a scalar \<open>c\<close>.\<close>

definition mv_add :: "'a::comm_ring_1 multivector \<Rightarrow> 'a multivector \<Rightarrow> 'a multivector" where
  "mv_add x y = map2 (+) x y"

definition mv_sub :: "'a::comm_ring_1 multivector \<Rightarrow> 'a multivector \<Rightarrow> 'a multivector" where
  "mv_sub x y = map2 (-) x y"

definition mv_neg :: "'a::comm_ring_1 multivector \<Rightarrow> 'a multivector" where
  "mv_neg x = map uminus x"

definition mv_smul :: "'a::comm_ring_1 \<Rightarrow> 'a multivector \<Rightarrow> 'a multivector" where
  "mv_smul c x = map ((*) c) x"

text \<open>Modelled from the spec: the grade projection \<open>x(k)\<close>.\<close>

definition grade_projection :: "'a::comm_ring_1 multivector \<Rightarrow> nat \<Rightarrow> 'a multivector" where
  "grade_projection x k = map (\<lambda>b. if grade b = k then x ! b else 0) [0..<length x]"

text \<open>
  Modelled from the spec: the grade involution, the automorphism negating odd-grade
  components.
\<close>

definition grade_involution :: "'a::comm_ring_1 multivector \<Rightarrow> 'a multivector" where
  "grade_involution x = map (\<lambda>b. if even (grade b) then x ! b else - (x ! b)) [0..<length x]"

text \<open>
  Modelled from the spec: the reversion \<open>~x\<close>, reversing the order of the factors of each
  blade.
\<close>

definition reversion :: "'a::comm_ring_1 multivector \<Rightarrow> 'a multivector" where
  "reversion x = map (\<lambda>b. (- 1) ^ (grade b * (grade b - 1) div 2) * x ! b) [0..<length x]"

text \<open>Modelled from the spec: the outer product \<open>x ^ y\<close>.\<close>

definition outer :: "'a::comm_ring_1 multivector \<Rightarrow> 'a multivector \<Rightarrow> 'a multivector" where
  "outer x y = map (\<lambda>c. \<Sum>a\<leftarrow>[0..<length x].
       if a AND c = a then reorder_sign a (c - a) * x ! a * y ! (c - a) else 0) [0..<length x]"

text \<open>
  Modelled from the spec: the geometric product \<open>x * y\<close> of two multivectors, for the
  Euclidean signature (every basis vector squares to 1).
\<close>

definition geometric :: "'a::comm_ring_1 multivector \<Rightarrow> 'a multivector \<Rightarrow> 'a multivector" where
  "geometric x y = map (\<lambda>c. \<Sum>a\<leftarrow>[0..<length x].
       reorder_sign a (a XOR c) * x ! a * y ! (a XOR c)) [0..<length x]"

section \<open>Python values and errors\<close>

text \<open>
  The classes of \<open>gscrew/screw.py\<close>. \<open>Screw\<close> and \<open>CoScrew\<close> inherit from \<open>ScrewBase\<close>; an
  instance carries its class, which \<open>change_point\<close> reads as \<open>self.__class__\<close>.
\<close>

datatype py_class = ScrewBase | Screw | CoScrew

record 'a screw_base =
  cls :: py_class
  ref_point :: "'a multivector"
  direction :: "'a multivector"
  moment :: "'a multivector"

text \<open>
  The classes of the point-free module \<open>src/screw.py\<close>: \<open>Screw\<close> and \<open>CoScrew\<close>, without a
  common base class and without a reference point. \<open>pf_cls\<close> is \<open>Screw\<close> or \<open>CoScrew\<close>.
\<close>

record 'a pf_screw =
  pf_cls :: py_class
  pf_direction :: "'a multivector"
  pf_moment :: "'a multivector"

text \<open>The values an operand of an overloaded operator can be.\<close>

datatype 'a py_value =
    Obj "'a screw_base"
  | PFObj "'a pf_screw"
  | MultiVector "'a multivector"
  | PyInt int
  | PyStr string
  | PyNone

text \<open>Both errors of the module are Python's \<open>TypeError\<close>, told apart by their message.\<close>

datatype error = TypeError string | IndexError string

fun class_name :: "py_class \<Rightarrow> string" where
  "class_name ScrewBase = ''ScrewBase''"
| "class_name Screw = ''Screw''"
| "class_name CoScrew = ''CoScrew''"

text \<open>The text of \<open>type(other)\<close> in the messages.\<close>

fun type_repr :: "'a py_value \<Rightarrow> string" where
  "type_repr (Obj x) = ''<class 'gscrew.screw.'' @ class_name (cls x) @ '''>''"
| "type_repr (PFObj x) = ''<class 'screw.'' @ class_name (pf_cls x) @ '''>''"
| "type_repr (MultiVector x) = ''<class 'gscrew.geometric_algebra.MultiVector'>''"
| "type_repr (PyInt i) = ''<class 'int'>''"
| "type_repr (PyStr s) = ''<class 'str'>''"
| "type_repr PyNone = ''<class 'NoneType'>''"

text \<open>
  \<open>isinstance(v, c)\<close> for a class \<open>c\<close> of \<open>gscrew/screw.py\<close>: the class of \<open>v\<close> is \<open>c\<close> or
  inherits from it.
\<close>

fun isinstance :: "'a py_value \<Rightarrow> py_class \<Rightarrow> bool" where
  "isinstance (Obj x) c = (cls x = c \<or> c = ScrewBase)"
| "isinstance v c = False"

section \<open>\<open>gscrew/screw.py\<close>: the point-aware classes\<close>

text \<open>\<open>ScrewBase.__init__\<close>, called for the class \<open>c\<close> being instantiated.\<close>

definition ScrewBase_init ::
  "py_class \<Rightarrow> 'a::comm_ring_1 multivector \<Rightarrow> 'a multivector \<Rightarrow> 'a multivector
    \<Rightarrow> error + 'a screw_base" where
  "ScrewBase_init c rp d m =
     (if grade_projection rp 1 \<noteq> rp then Inl (TypeError ''ref_point is not a point'')
      else Inr \<lparr>cls = c, ref_point = rp, direction = d, moment = m\<rparr>)"

text \<open>\<open>ScrewBase.change_point\<close>.\<close>

definition change_point ::
  "'a::comm_ring_1 screw_base \<Rightarrow> 'a multivector \<Rightarrow> error + 'a screw_base" where
  "change_point self new_point =
     ScrewBase_init (cls self) new_point (direction self)
       (mv_sub (moment self) (outer (mv_sub new_point (ref_point self)) (direction self)))"

text \<open>\<open>Screw.__add__\<close> (also \<open>__radd__\<close>).\<close>

fun Screw_add :: "'a::comm_ring_1 screw_base \<Rightarrow> 'a py_value \<Rightarrow> error + 'a screw_base" where
  "Screw_add self (Obj other) =
     (if \<not> isinstance (Obj other) Screw
      then Inl (TypeError (''other must be a Screw instance instead of '' @ type_repr (Obj other)))
      else case (if ref_point self \<noteq> ref_point other
                 then change_point other (ref_point self) else Inr other) of
             Inl e \<Rightarrow> Inl e
           | Inr other' \<Rightarrow>
               ScrewBase_init Screw (ref_point self)
                 (mv_add (direction self) (direction other'))
                 (mv_add (moment self) (moment other')))"
| "Screw_add self other =
     Inl (TypeError (''other must be a Screw instance instead of '' @ type_repr other))"

text \<open>\<open>Screw.__xor__\<close>.\<close>

fun Screw_xor :: "'a::comm_ring_1 screw_base \<Rightarrow> 'a py_value \<Rightarrow> error + 'a screw_base" where
  "Screw_xor self (Obj other) =
     (if \<not> isinstance (Obj other) Screw
      then Inl (TypeError (''other must be a Screw instance instead of '' @ type_repr (Obj other)))
      else case (if ref_point self \<noteq> ref_point other
                 then change_point other (ref_point self) else Inr other) of
             Inl e \<Rightarrow> Inl e
           | Inr other' \<Rightarrow>
               ScrewBase_init Screw (ref_point self)
                 (mv_add (outer (direction self) (moment other'))
                         (outer (grade_involution (moment self)) (direction other')))
                 (outer (moment self) (moment other')))"
| "Screw_xor self other =
     Inl (TypeError (''other must be a Screw instance instead of '' @ type_repr other))"

text \<open>\<open>CoScrew.__add__\<close> (also \<open>__radd__\<close>).\<close>

fun CoScrew_add :: "'a::comm_ring_1 screw_base \<Rightarrow> 'a py_value \<Rightarrow> error + 'a screw_base" where
  "CoScrew_add self (Obj other) =
     (if \<not> isinstance (Obj other) CoScrew
      then Inl (TypeError (''other must be a CoScrew instance instead of '' @ type_repr (Obj other)))
      else ScrewBase_init CoScrew (ref_point self)
             (mv_add (direction self) (direction other))
             (mv_add (moment self) (moment other)))"
| "CoScrew_add self other =
     Inl (TypeError (''other must be a CoScrew instance instead of '' @ type_repr other))"

text \<open>\<open>comoment\<close> of \<open>gscrew/screw.py\<close>; its arguments are not checked.\<close>

definition comoment :: "'a::comm_ring_1 screw_base \<Rightarrow> 'a screw_base \<Rightarrow> 'a multivector" where
  "comoment coscrew screw =
     grade_projection
       (mv_add (geometric (mv_neg (grade_involution (direction coscrew)))
                          (grade_involution (moment screw)))
               (geometric (direction screw) (moment coscrew))) 0"

section \<open>\<open>src/screw.py\<close>: the point-free classes\<close>

text \<open>
  \<open>Screw.__xor__\<close> of the point-free module. Python's \<open>+\<close> binds tighter than \<open>^\<close>, and \<open>^\<close>
  associates to the left, so the direction \<open>d ^ m' + g ^ d'\<close> of the source is
  \<open>(d ^ (m' + g)) ^ d'\<close>.
\<close>

fun pf_Screw_xor :: "'a::comm_ring_1 pf_screw \<Rightarrow> 'a py_value \<Rightarrow> error + 'a pf_screw" where
  "pf_Screw_xor self (PFObj other) =
     (if pf_cls other \<noteq> Screw
      then Inl (TypeError (''other must be a Screw instance instead of '' @ type_repr (PFObj other)))
      else Inr \<lparr>pf_cls = Screw,
                pf_direction =
                  outer (outer (pf_direction self)
                               (mv_add (pf_moment other) (grade_involution (pf_moment self))))
                        (pf_direction other),
                pf_moment = outer (pf_moment self) (pf_moment other)\<rparr>)"
| "pf_Screw_xor self other =
     Inl (TypeError (''other must be a Screw instance instead of '' @ type_repr other))"

text \<open>\<open>comoment\<close> of the point-free module.\<close>

definition pf_comoment :: "'a::comm_ring_1 pf_screw \<Rightarrow> 'a pf_screw \<Rightarrow> 'a multivector" where
  "pf_comoment coscrew screw =
     mv_add (geometric (mv_neg (grade_involution (pf_direction coscrew)))
                       (grade_involution (pf_moment screw)))
            (geometric (pf_direction screw) (pf_moment coscrew))"

text \<open>
  The comoment as the spec words it, \<open>-gi(cs.direction) * gi(s.moment) + s.direction * cs.moment\<close>
  read as mathematics: the sign applies to the product. It is compared with the two
  functions of the source, where Python applies the sign to the first factor.
\<close>

definition comoment_spec ::
  "'a::comm_ring_1 multivector \<Rightarrow> 'a multivector \<Rightarrow> 'a multivector \<Rightarrow> 'a multivector
    \<Rightarrow> 'a multivector" where
  "comoment_spec cs_direction cs_moment s_direction s_moment =
     mv_add (mv_neg (geometric (grade_involution cs_direction) (grade_involution s_moment)))
            (geometric s_direction cs_moment)"

section \<open>\<open>examples/arm_kinematics.py\<close>: composing the joints of an arm\<close>

text \<open>Indexing a Python list: a negative index counts from the end.\<close>

definition py_index :: "'c list \<Rightarrow> int \<Rightarrow> error + 'c" where
  "py_index xs i =
     (if 0 \<le> i \<and> i < int (length xs) then Inr (xs ! nat i)
      else if i < 0 \<and> - int (length xs) \<le> i then Inr (xs ! nat (int (length xs) + i))
      else Inl (IndexError ''list index out of range''))"

text \<open>\<open>range(start, stop)\<close>.\<close>

definition py_range :: "int \<Rightarrow> int \<Rightarrow> int list" where
  "py_range start stop = [start..stop - 1]"

text \<open>
  The loop of lines 39 and 40, run over the remaining values of \<open>index\<close>. The method
  \<open>CoScrew.composition\<close> that the loop calls is not defined in \<open>gscrew/screw.py\<close>; it is the
  parameter \<open>composition\<close>, which may raise.
\<close>

fun compose_loop ::
  "('c \<Rightarrow> 'c \<Rightarrow> error + 'c) \<Rightarrow> 'c list \<Rightarrow> int \<Rightarrow> int list \<Rightarrow> 'c \<Rightarrow> error + 'c" where
  "compose_loop composition joint_comotors nb_joints [] tot = Inr tot"
| "compose_loop composition joint_comotors nb_joints (index # rest) tot =
     (case py_index joint_comotors (nb_joints - index - 1) of
        Inl e \<Rightarrow> Inl e
      | Inr joint \<Rightarrow>
          (case composition tot joint of
             Inl e \<Rightarrow> Inl e
           | Inr tot' \<Rightarrow> compose_loop composition joint_comotors nb_joints rest tot'))"

text \<open>Lines 37 to 40: the value of \<open>total_comotor\<close> after the loop.\<close>

definition total_comotor ::
  "('c \<Rightarrow> 'c \<Rightarrow> error + 'c) \<Rightarrow> 'c list \<Rightarrow> int \<Rightarrow> error + 'c" where
  "total_comotor composition joint_comotors nb_joints =
     (case py_index joint_comotors (- 1) of
        Inl e \<Rightarrow> Inl e
      | Inr tot \<Rightarrow>
          compose_loop composition joint_comotors nb_joints (py_range 1 (nb_joints - 1)) tot)"

text \<open>
  Modelled from the spec: the attribute \<open>resultant\<close> of a comotor, which \<open>gscrew/screw.py\<close>
  does not define; the spec takes the resultant rotor to be the comotor's direction.
\<close>

definition resultant :: "'a screw_base \<Rightarrow> 'a multivector" where
  "resultant comotor = direction comotor"

text \<open>
  Lines 47 and 48: \<open>change_point\<close> is called and its result dropped, then the moment of
  \<open>total_comotor\<close> is read. The call can still raise.
\<close>

definition total_translation ::
  "'a::comm_ring_1 screw_base \<Rightarrow> 'a multivector \<Rightarrow> error + 'a multivector" where
  "total_translation tot origin =
     (case change_point tot origin of
        Inl e \<Rightarrow> Inl e
      | Inr unused \<Rightarrow> Inr (moment tot))"

text \<open>Lines 44 to 51: the grade-1 part of \<open>final_position\<close>, which the script prints.\<close>

definition final_position ::
  "'a::comm_ring_1 screw_base \<Rightarrow> 'a multivector \<Rightarrow> 'a multivector \<Rightarrow> error + 'a multivector" where
  "final_position tot end_effector origin =
     (let total_rotor = resultant tot in
      case total_translation tot origin of
        Inl e \<Rightarrow> Inl e
      | Inr translation \<Rightarrow>
          Inr (grade_projection
                 (mv_add (geometric (geometric (reversion total_rotor) end_effector) total_rotor)
                         (geometric (mv_smul 2 (reversion total_rotor)) translation)) 1))"

section \<open>Facts about the multivector operations\<close>

lemma length_grade_projection [simp]: "length (grade_projection x k) = length x"
  by (simp add: grade_projection_def)

lemma nth_grade_projection:
  "b < length x \<Longrightarrow> grade_projection x k ! b = (if grade b = k then x ! b else 0)"
  by (simp add: grade_projection_def)

lemma length_outer [simp]: "length (outer x y) = length x"
  by (simp add: outer_def)

lemma length_geometric [simp]: "length (geometric x y) = length x"
  by (simp add: geometric_def)

lemma length_mv_sub [simp]: "length (mv_sub x y) = min (length x) (length y)"
  by (simp add: mv_sub_def)

lemma length_mv_neg [simp]: "length (mv_neg x) = length x"
  by (simp add: mv_neg_def)

lemma nth_mv_sub: "i < length x \<Longrightarrow> i < length y \<Longrightarrow> mv_sub x y ! i = x ! i - y ! i"
  by (simp add: mv_sub_def)

lemma nth_outer:
  "c < length x \<Longrightarrow> outer x y ! c =
     (\<Sum>a\<leftarrow>[0..<length x].
        if a AND c = a then reorder_sign a (c - a) * x ! a * y ! (c - a) else 0)"
  by (simp add: outer_def cong: if_cong)

text \<open>A multivector with a non-zero coefficient outside grade 1 is not a point.\<close>

lemma off_grade_not_point:
  assumes "b < length P" and "grade b \<noteq> 1" and "P ! b \<noteq> 0"
  shows "grade_projection P 1 \<noteq> P"
proof
  assume "grade_projection P 1 = P"
  then have "grade_projection P 1 ! b = P ! b" by simp
  with assms show False by (simp add: nth_grade_projection)
qed

lemma sum_list_map_neg:
  fixes f :: "'b \<Rightarrow> 'a::comm_ring_1"
  shows "(\<Sum>a\<leftarrow>xs. - f a) = - (\<Sum>a\<leftarrow>xs. f a)"
  by (induction xs) simp_all

lemma sum_list_map_cong_nat:
  fixes f g :: "nat \<Rightarrow> 'a::comm_ring_1"
  assumes "\<And>a. a < n \<Longrightarrow> f a = g a"
  shows "(\<Sum>a\<leftarrow>[0..<n]. f a) = (\<Sum>a\<leftarrow>[0..<n]. g a)"
proof -
  have "map f [0..<n] = map g [0..<n]" using assms by simp
  then show ?thesis by (rule arg_cong)
qed

text \<open>The outer product is odd in its left factor: \<open>(p - q) ^ d = - ((q - p) ^ d)\<close>.\<close>

lemma outer_mv_sub_swap:
  fixes p q d :: "'a::comm_ring_1 multivector"
  assumes "length p = length q"
  shows "outer (mv_sub p q) d = mv_neg (outer (mv_sub q p) d)"
proof (rule nth_equalityI)
  show "length (outer (mv_sub p q) d) = length (mv_neg (outer (mv_sub q p) d))"
    using assms by simp
next
  fix c assume "c < length (outer (mv_sub p q) d)"
  then have c: "c < length q" using assms by simp
  have "(\<Sum>a\<leftarrow>[0..<length q].
          if a AND c = a then reorder_sign a (c - a) * mv_sub p q ! a * d ! (c - a) else 0)
      = (\<Sum>a\<leftarrow>[0..<length q].
          - (if a AND c = a then reorder_sign a (c - a) * mv_sub q p ! a * d ! (c - a) else 0))"
    by (rule sum_list_map_cong_nat) (simp add: nth_mv_sub assms algebra_simps)
  then show "outer (mv_sub p q) d ! c = mv_neg (outer (mv_sub q p) d) ! c"
    using c assms by (simp add: nth_outer mv_neg_def sum_list_map_neg)
qed

lemma mv_sub_sub_neg:
  fixes m a :: "'a::comm_ring_1 multivector"
  assumes "length a = length m"
  shows "mv_sub (mv_sub m a) (mv_neg a) = m"
  using assms by (intro nth_equalityI) (simp_all add: mv_sub_def mv_neg_def)

lemma mv_sub_self: "mv_sub p p = replicate (length p) (0::'a::comm_ring_1)"
  by (intro nth_equalityI) (simp_all add: mv_sub_def)

lemma outer_zero_left: "outer (replicate n (0::'a::comm_ring_1)) d = replicate n 0"
proof (rule nth_equalityI)
  show "length (outer (replicate n (0::'a)) d) = length (replicate n (0::'a))" by simp
next
  fix c assume "c < length (outer (replicate n (0::'a)) d)"
  then have c: "c < n" by simp
  have "(\<Sum>a\<leftarrow>[0..<n].
          if a AND c = a then reorder_sign a (c - a) * replicate n (0::'a) ! a * d ! (c - a) else 0)
      = (\<Sum>a\<leftarrow>[0..<n]. 0)"
    by (rule sum_list_map_cong_nat) simp
  then show "outer (replicate n (0::'a)) d ! c = replicate n 0 ! c"
    using c by (simp add: nth_outer)
qed

lemma mv_sub_zero_right:
  "length m = n \<Longrightarrow> mv_sub m (replicate n (0::'a::comm_ring_1)) = m"
  by (intro nth_equalityI) (simp_all add: mv_sub_def)

text \<open>The geometric product is odd in its left factor.\<close>

lemma geometric_neg_left:
  fixes x y :: "'a::comm_ring_1 multivector"
  shows "geometric (mv_neg x) y = mv_neg (geometric x y)"
proof (rule nth_equalityI)
  show "length (geometric (mv_neg x) y) = length (mv_neg (geometric x y))" by simp
next
  fix c assume "c < length (geometric (mv_neg x) y)"
  then have c: "c < length x" by simp
  have "(\<Sum>a\<leftarrow>[0..<length x]. reorder_sign a (a XOR c) * mv_neg x ! a * y ! (a XOR c))
      = (\<Sum>a\<leftarrow>[0..<length x]. - (reorder_sign a (a XOR c) * x ! a * y ! (a XOR c)))"
    by (rule sum_list_map_cong_nat) (simp add: mv_neg_def)
  then show "geometric (mv_neg x) y ! c = mv_neg (geometric x y) ! c"
    using c by (simp add: geometric_def mv_neg_def sum_list_map_neg)
qed

text \<open>The two messages of the module never coincide.\<close>

lemma mismatch_not_point [simp]:
  "''ref_point is not a point'' \<noteq> ''other must be a Screw instance instead of '' @ t"
  "''ref_point is not a point'' \<noteq> ''other must be a CoScrew instance instead of '' @ t"
  by simp_all

section \<open>Change of reference point\<close>

text \<open>
  C1. For a (co)screw \<open>s\<close> with reference point \<open>P\<close>, direction \<open>D\<close> and moment \<open>M\<close>, and a
  point \<open>Q\<close> (a multivector equal to its grade-1 part), \<open>s.change_point(Q)\<close> returns an
  instance of the class of \<open>s\<close> with reference point \<open>Q\<close>, direction \<open>D\<close> and moment
  \<open>M - ((Q - P) ^ D)\<close>. The method assigns to no attribute of \<open>s\<close>: its only effect is the
  value returned, which is what the function \<open>change_point\<close> gives.
\<close>

theorem change_point_transport:
  assumes "grade_projection Q 1 = Q"
  shows "change_point s Q =
    Inr \<lparr>cls = cls s, ref_point = Q, direction = direction s,
         moment = mv_sub (moment s) (outer (mv_sub Q (ref_point s)) (direction s))\<rparr>"
  using assms by (simp add: change_point_def ScrewBase_init_def)

text \<open>
  In three dimensions: the comotor with rotor \<open>1 + e12\<close> and moment \<open>2 e2\<close> at the point
  \<open>10 e3\<close>, moved to the point \<open>e1\<close>.
\<close>

theorem change_point_transport_witness:
  "grade_projection [0, 1, 0, 0, 0, 0, 0, 0 :: int] 1 = [0, 1, 0, 0, 0, 0, 0, 0]
   \<and> change_point \<lparr>cls = CoScrew, ref_point = [0, 0, 0, 0, 10, 0, 0, 0 :: int],
         direction = [1, 0, 0, 1, 0, 0, 0, 0], moment = [0, 0, 2, 0, 0, 0, 0, 0]\<rparr>
       [0, 1, 0, 0, 0, 0, 0, 0]
     = Inr \<lparr>cls = CoScrew, ref_point = [0, 1, 0, 0, 0, 0, 0, 0],
         direction = [1, 0, 0, 1, 0, 0, 0, 0], moment = [0, - 1, 2, 0, 10, 0, 0, 10]\<rparr>"
proof -
  have h: "grade_projection [0, 1, 0, 0, 0, 0, 0, 0 :: int] 1 = [0, 1, 0, 0, 0, 0, 0, 0]"
    by code_simp
  have m: "mv_sub [0, 0, 2, 0, 0, 0, 0, 0 :: int]
      (outer (mv_sub [0, 1, 0, 0, 0, 0, 0, 0] [0, 0, 0, 0, 10, 0, 0, 0]) [1, 0, 0, 1, 0, 0, 0, 0])
      = [0, - 1, 2, 0, 10, 0, 0, 10]"
    by code_simp
  show ?thesis
    using h m change_point_transport [OF h,
        of "\<lparr>cls = CoScrew, ref_point = [0, 0, 0, 0, 10, 0, 0, 0 :: int],
             direction = [1, 0, 0, 1, 0, 0, 0, 0], moment = [0, 0, 2, 0, 0, 0, 0, 0]\<rparr>"]
    by simp
qed

text \<open>
  C5. For a screw \<open>s\<close> anchored at the point \<open>P\<close> and a point \<open>Q\<close> of the same algebra,
  \<open>s.change_point(P)\<close> has the reference point, direction and moment of \<open>s\<close>, and so has
  \<open>s.change_point(Q).change_point(P)\<close>. That \<open>s\<close> was built by the constructor is the
  hypothesis that \<open>P\<close> equals its grade-1 part; multivectors of one algebra have equally
  many coefficients. The equalities are those of exact coefficient arithmetic.
\<close>

theorem change_point_round_trip:
  fixes s :: "'a::comm_ring_1 screw_base"
  assumes "grade_projection (ref_point s) 1 = ref_point s"
    and "grade_projection Q 1 = Q"
    and "length Q = length (ref_point s)"
    and "length (moment s) = length (ref_point s)"
  shows "change_point s (ref_point s) = Inr s
    \<and> (\<exists>s'. change_point s Q = Inr s' \<and> change_point s' (ref_point s) = Inr s)"
proof
  show "change_point s (ref_point s) = Inr s"
    using assms(1,4)
    by (simp add: change_point_def ScrewBase_init_def mv_sub_self outer_zero_left
        mv_sub_zero_right)
next
  let ?A = "outer (mv_sub Q (ref_point s)) (direction s)"
  let ?s' = "\<lparr>cls = cls s, ref_point = Q, direction = direction s,
              moment = mv_sub (moment s) ?A\<rparr>"
  have 1: "change_point s Q = Inr ?s'"
    using assms(2) by (simp add: change_point_def ScrewBase_init_def)
  have "outer (mv_sub (ref_point s) Q) (direction s) = mv_neg ?A"
    using assms(3) by (intro outer_mv_sub_swap) simp
  moreover have "mv_sub (mv_sub (moment s) ?A) (mv_neg ?A) = moment s"
    using assms(3,4) by (intro mv_sub_sub_neg) simp
  ultimately have 2: "change_point ?s' (ref_point s) = Inr s"
    using assms(1) by (simp add: change_point_def ScrewBase_init_def)
  from 1 2 show "\<exists>s'. change_point s Q = Inr s' \<and> change_point s' (ref_point s) = Inr s"
    by blast
qed

text \<open>
  In three dimensions: the screw of the module's docstring, anchored at \<open>e1\<close>, moved to
  \<open>10 e3\<close> and back.
\<close>

theorem change_point_round_trip_witness:
  "change_point \<lparr>cls = Screw, ref_point = [0, 1, 0, 0, 0, 0, 0, 0 :: int],
         direction = [2, 3, 0, 0, 6, 0, 0, 0], moment = [0, 2, 5, 0, 1, 0, 0, 0]\<rparr>
       [0, 1, 0, 0, 0, 0, 0, 0]
     = Inr \<lparr>cls = Screw, ref_point = [0, 1, 0, 0, 0, 0, 0, 0],
         direction = [2, 3, 0, 0, 6, 0, 0, 0], moment = [0, 2, 5, 0, 1, 0, 0, 0]\<rparr>
   \<and> change_point \<lparr>cls = Screw, ref_point = [0, 1, 0, 0, 0, 0, 0, 0 :: int],
         direction = [2, 3, 0, 0, 6, 0, 0, 0], moment = [0, 2, 5, 0, 1, 0, 0, 0]\<rparr>
       [0, 0, 0, 0, 10, 0, 0, 0]
     = Inr \<lparr>cls = Screw, ref_point = [0, 0, 0, 0, 10, 0, 0, 0],
         direction = [2, 3, 0, 0, 6, 0, 0, 0], moment = [0, 4, 5, 0, - 19, 36, 0, 0]\<rparr>
   \<and> change_point \<lparr>cls = Screw, ref_point = [0, 0, 0, 0, 10, 0, 0, 0 :: int],
         direction = [2, 3, 0, 0, 6, 0, 0, 0], moment = [0, 4, 5, 0, - 19, 36, 0, 0]\<rparr>
       [0, 1, 0, 0, 0, 0, 0, 0]
     = Inr \<lparr>cls = Screw, ref_point = [0, 1, 0, 0, 0, 0, 0, 0],
         direction = [2, 3, 0, 0, 6, 0, 0, 0], moment = [0, 2, 5, 0, 1, 0, 0, 0]\<rparr>"
proof -
  let ?P = "[0, 1, 0, 0, 0, 0, 0, 0 :: int]"
  let ?Q = "[0, 0, 0, 0, 10, 0, 0, 0 :: int]"
  let ?s = "\<lparr>cls = Screw, ref_point = ?P,
         direction = [2, 3, 0, 0, 6, 0, 0, 0], moment = [0, 2, 5, 0, 1, 0, 0, 0]\<rparr>"
  let ?t = "\<lparr>cls = Screw, ref_point = ?Q,
         direction = [2, 3, 0, 0, 6, 0, 0, 0], moment = [0, 4, 5, 0, - 19, 36, 0, 0]\<rparr>"
  have p: "grade_projection ?P 1 = ?P" by code_simp
  have q: "grade_projection ?Q 1 = ?Q" by code_simp
  have "change_point ?s (ref_point ?s) = Inr ?s
    \<and> (\<exists>s'. change_point ?s ?Q = Inr s' \<and> change_point s' (ref_point ?s) = Inr ?s)"
    by (rule change_point_round_trip) (use p q in simp_all)
  then obtain s' where a: "change_point ?s ?P = Inr ?s"
    and b: "change_point ?s ?Q = Inr s'" and c: "change_point s' ?P = Inr ?s"
    by auto
  have "change_point ?s ?Q = Inr ?t" by code_simp
  with b have "s' = ?t" by simp
  with a b c show ?thesis by simp
qed

section \<open>Validation of the reference point\<close>

text \<open>
  C8. Constructing a \<open>Screw\<close> or a \<open>CoScrew\<close> (an instance of any class \<open>c\<close> of the module)
  raises \<open>TypeError("ref_point is not a point")\<close> exactly when the reference point differs
  from its grade-1 part. A reference point with a non-zero coefficient on a blade of grade
  2 or more always fails, and for a reference point that equals its grade-1 part the
  constructor returns the instance holding the three arguments unchanged.
\<close>

theorem init_validates_ref_point:
  "((ScrewBase_init c P D M = Inl (TypeError ''ref_point is not a point''))
      = (grade_projection P 1 \<noteq> P))
   \<and> ((\<exists>b<length P. 2 \<le> grade b \<and> P ! b \<noteq> 0) \<longrightarrow>
        ScrewBase_init c P D M = Inl (TypeError ''ref_point is not a point''))
   \<and> (grade_projection P 1 = P \<longrightarrow>
        ScrewBase_init c P D M = Inr \<lparr>cls = c, ref_point = P, direction = D, moment = M\<rparr>)"
proof (intro conjI impI)
  show "(ScrewBase_init c P D M = Inl (TypeError ''ref_point is not a point''))
      = (grade_projection P 1 \<noteq> P)"
    by (simp add: ScrewBase_init_def)
next
  assume "\<exists>b<length P. 2 \<le> grade b \<and> P ! b \<noteq> 0"
  then obtain b where "b < length P" "2 \<le> grade b" "P ! b \<noteq> 0" by blast
  then have "grade_projection P 1 \<noteq> P"
    by (intro off_grade_not_point [of b]) simp_all
  then show "ScrewBase_init c P D M = Inl (TypeError ''ref_point is not a point'')"
    by (simp add: ScrewBase_init_def)
next
  assume "grade_projection P 1 = P"
  then show "ScrewBase_init c P D M = Inr \<lparr>cls = c, ref_point = P, direction = D, moment = M\<rparr>"
    by (simp add: ScrewBase_init_def)
qed

text \<open>
  In three dimensions: the bivector \<open>e12\<close> (index 3, of grade 2) is refused as a reference
  point, the vector \<open>e1\<close> is accepted.
\<close>

theorem init_validates_ref_point_witness:
  "(3::nat) < length [0, 0, 0, 1, 0, 0, 0, 0 :: int] \<and> 2 \<le> grade 3
   \<and> [0, 0, 0, 1, 0, 0, 0, 0 :: int] ! 3 \<noteq> 0
   \<and> ScrewBase_init Screw [0, 0, 0, 1, 0, 0, 0, 0 :: int]
        [2, 3, 0, 0, 6, 0, 0, 0] [0, 2, 5, 0, 1, 0, 0, 0]
       = Inl (TypeError ''ref_point is not a point'')
   \<and> grade_projection [0, 1, 0, 0, 0, 0, 0, 0 :: int] 1 = [0, 1, 0, 0, 0, 0, 0, 0]
   \<and> ScrewBase_init CoScrew [0, 1, 0, 0, 0, 0, 0, 0 :: int]
        [2, 3, 0, 0, 6, 0, 0, 0] [0, 2, 5, 0, 1, 0, 0, 0]
       = Inr \<lparr>cls = CoScrew, ref_point = [0, 1, 0, 0, 0, 0, 0, 0],
              direction = [2, 3, 0, 0, 6, 0, 0, 0], moment = [0, 2, 5, 0, 1, 0, 0, 0]\<rparr>"
proof -
  let ?B = "[0, 0, 0, 1, 0, 0, 0, 0 :: int]"
  let ?P = "[0, 1, 0, 0, 0, 0, 0, 0 :: int]"
  let ?D = "[2, 3, 0, 0, 6, 0, 0, 0 :: int]"
  let ?M = "[0, 2, 5, 0, 1, 0, 0, 0 :: int]"
  have g: "2 \<le> grade 3" by code_simp
  have b: "(3::nat) < length ?B" "?B ! 3 \<noteq> 0" by simp_all
  have p: "grade_projection ?P 1 = ?P" by code_simp
  from g b have "\<exists>b<length ?B. 2 \<le> grade b \<and> ?B ! b \<noteq> 0" by blast
  with init_validates_ref_point [of Screw ?B ?D ?M]
  have 1: "ScrewBase_init Screw ?B ?D ?M = Inl (TypeError ''ref_point is not a point'')"
    by blast
  from p init_validates_ref_point [of CoScrew ?P ?D ?M]
  have 2: "ScrewBase_init CoScrew ?P ?D ?M
      = Inr \<lparr>cls = CoScrew, ref_point = ?P, direction = ?D, moment = ?M\<rparr>"
    by blast
  from g b p 1 2 show ?thesis by blast
qed

text \<open>
  C10. \<open>s.change_point(Q)\<close> raises \<open>TypeError("ref_point is not a point")\<close> exactly when \<open>Q\<close>
  differs from its grade-1 part; whatever error it raises is the error of the constructor
  called on \<open>Q\<close> (for any class, direction and moment), and it returns an instance exactly
  when \<open>Q\<close> equals its grade-1 part.
\<close>

theorem change_point_revalidates:
  "((change_point s Q = Inl (TypeError ''ref_point is not a point''))
      = (grade_projection Q 1 \<noteq> Q))
   \<and> ((change_point s Q = Inl e) = (ScrewBase_init c Q D M = Inl e))
   \<and> ((\<exists>s'. change_point s Q = Inr s') = (grade_projection Q 1 = Q))"
  by (auto simp add: change_point_def ScrewBase_init_def)

text \<open>
  In three dimensions: moving the docstring's screw to the bivector \<open>e12\<close> fails as the
  constructor does, moving it to the vector \<open>10 e3\<close> succeeds.
\<close>

theorem change_point_revalidates_witness:
  "change_point \<lparr>cls = Screw, ref_point = [0, 1, 0, 0, 0, 0, 0, 0 :: int],
         direction = [2, 3, 0, 0, 6, 0, 0, 0], moment = [0, 2, 5, 0, 1, 0, 0, 0]\<rparr>
       [0, 0, 0, 1, 0, 0, 0, 0]
     = Inl (TypeError ''ref_point is not a point'')
   \<and> ScrewBase_init CoScrew [0, 0, 0, 1, 0, 0, 0, 0 :: int] [] []
     = Inl (TypeError ''ref_point is not a point'')
   \<and> change_point \<lparr>cls = Screw, ref_point = [0, 1, 0, 0, 0, 0, 0, 0 :: int],
         direction = [2, 3, 0, 0, 6, 0, 0, 0], moment = [0, 2, 5, 0, 1, 0, 0, 0]\<rparr>
       [0, 0, 0, 0, 10, 0, 0, 0]
     = Inr \<lparr>cls = Screw, ref_point = [0, 0, 0, 0, 10, 0, 0, 0],
         direction = [2, 3, 0, 0, 6, 0, 0, 0], moment = [0, 4, 5, 0, - 19, 36, 0, 0]\<rparr>"
proof -
  let ?B = "[0, 0, 0, 1, 0, 0, 0, 0 :: int]"
  let ?Q = "[0, 0, 0, 0, 10, 0, 0, 0 :: int]"
  let ?s = "\<lparr>cls = Screw, ref_point = [0, 1, 0, 0, 0, 0, 0, 0 :: int],
         direction = [2, 3, 0, 0, 6, 0, 0, 0], moment = [0, 2, 5, 0, 1, 0, 0, 0]\<rparr>"
  have b: "grade_projection ?B 1 \<noteq> ?B" by code_simp
  have q: "grade_projection ?Q 1 = ?Q" by code_simp
  from b change_point_revalidates [of ?s ?B _ CoScrew "[]" "[]"]
  have 1: "change_point ?s ?B = Inl (TypeError ''ref_point is not a point'')"
    and 2: "ScrewBase_init CoScrew ?B [] [] = Inl (TypeError ''ref_point is not a point'')"
    by blast+
  from q change_point_revalidates [of ?s ?Q] obtain s' where 3: "change_point ?s ?Q = Inr s'"
    by blast
  have "change_point ?s ?Q = Inr \<lparr>cls = Screw, ref_point = ?Q,
         direction = [2, 3, 0, 0, 6, 0, 0, 0], moment = [0, 4, 5, 0, - 19, 36, 0, 0]\<rparr>"
    by code_simp
  with 1 2 3 show ?thesis by simp
qed

section \<open>Addition\<close>

text \<open>
  C6. \<open>s1 + other\<close> for a screw \<open>s1\<close> raises the type-mismatch \<open>TypeError\<close> exactly when
  \<open>other\<close> is not a \<open>Screw\<close>. For a \<open>Screw\<close> \<open>s2\<close> and a constructed \<open>s1\<close>, the operand \<open>s2'\<close> is
  \<open>s2.change_point(s1.ref_point)\<close> when the reference points differ and \<open>s2\<close> itself
  otherwise, and the result is the \<open>Screw\<close> at the reference point of \<open>s1\<close> with direction
  \<open>s1.direction + s2'.direction\<close> and moment \<open>s1.moment + s2'.moment\<close>.
\<close>

theorem Screw_add_transports:
  "((\<exists>t. Screw_add s1 other
          = Inl (TypeError (''other must be a Screw instance instead of '' @ t)))
      = (\<not> isinstance other Screw))
   \<and> (grade_projection (ref_point s1) 1 = ref_point s1 \<and> isinstance (Obj s2) Screw \<longrightarrow>
        (\<exists>s2'. (if ref_point s1 \<noteq> ref_point s2
                 then change_point s2 (ref_point s1) = Inr s2' else s2' = s2)
             \<and> Screw_add s1 (Obj s2)
                 = Inr \<lparr>cls = Screw, ref_point = ref_point s1,
                        direction = mv_add (direction s1) (direction s2'),
                        moment = mv_add (moment s1) (moment s2')\<rparr>))"
proof (intro conjI impI)
  show "(\<exists>t. Screw_add s1 other
          = Inl (TypeError (''other must be a Screw instance instead of '' @ t)))
      = (\<not> isinstance other Screw)"
    by (cases other)
      (auto simp add: change_point_def ScrewBase_init_def split: if_splits sum.splits)
next
  assume "grade_projection (ref_point s1) 1 = ref_point s1 \<and> isinstance (Obj s2) Screw"
  then show "\<exists>s2'. (if ref_point s1 \<noteq> ref_point s2
                 then change_point s2 (ref_point s1) = Inr s2' else s2' = s2)
             \<and> Screw_add s1 (Obj s2)
                 = Inr \<lparr>cls = Screw, ref_point = ref_point s1,
                        direction = mv_add (direction s1) (direction s2'),
                        moment = mv_add (moment s1) (moment s2')\<rparr>"
    by (auto simp add: change_point_def ScrewBase_init_def)
qed

text \<open>
  C7, as the code has it. \<open>cs1 + other\<close> for a coscrew \<open>cs1\<close> raises the type-mismatch
  \<open>TypeError\<close> exactly when \<open>other\<close> is not a \<open>CoScrew\<close>; the reference point of \<open>other\<close> is
  never read. For a \<open>CoScrew\<close> \<open>cs2\<close> at any reference point and a constructed \<open>cs1\<close>, the
  result is the \<open>CoScrew\<close> at the reference point of \<open>cs1\<close> with direction
  \<open>cs1.direction + cs2.direction\<close> and moment \<open>cs1.moment + cs2.moment\<close>: no change of point
  is applied.
\<close>

theorem CoScrew_add_no_transport:
  "((\<exists>t. CoScrew_add cs1 other
          = Inl (TypeError (''other must be a CoScrew instance instead of '' @ t)))
      = (\<not> isinstance other CoScrew))
   \<and> (grade_projection (ref_point cs1) 1 = ref_point cs1 \<and> isinstance (Obj cs2) CoScrew \<longrightarrow>
        CoScrew_add cs1 (Obj cs2)
          = Inr \<lparr>cls = CoScrew, ref_point = ref_point cs1,
                 direction = mv_add (direction cs1) (direction cs2),
                 moment = mv_add (moment cs1) (moment cs2)\<rparr>)"
proof (intro conjI impI)
  show "(\<exists>t. CoScrew_add cs1 other
          = Inl (TypeError (''other must be a CoScrew instance instead of '' @ t)))
      = (\<not> isinstance other CoScrew)"
    by (cases other) (auto simp add: ScrewBase_init_def split: if_splits)
next
  assume "grade_projection (ref_point cs1) 1 = ref_point cs1 \<and> isinstance (Obj cs2) CoScrew"
  then show "CoScrew_add cs1 (Obj cs2)
          = Inr \<lparr>cls = CoScrew, ref_point = ref_point cs1,
                 direction = mv_add (direction cs1) (direction cs2),
                 moment = mv_add (moment cs1) (moment cs2)\<rparr>"
    by (simp add: ScrewBase_init_def)
qed

section \<open>Comoment\<close>

text \<open>
  C9. The point-free \<open>comoment\<close> is the multivector
  \<open>-gi(cs.direction) * gi(s.moment) + s.direction * cs.moment\<close>, the point-aware \<open>comoment\<close> is
  its grade-0 part, and so the point-aware comoment is the grade-0 part of the point-free
  comoment of the same directions and moments.
\<close>

theorem comoment_refines:
  "pf_comoment \<lparr>pf_cls = CoScrew, pf_direction = direction cs, pf_moment = moment cs\<rparr>
               \<lparr>pf_cls = Screw, pf_direction = direction s, pf_moment = moment s\<rparr>
     = comoment_spec (direction cs) (moment cs) (direction s) (moment s)
   \<and> comoment cs s
     = grade_projection (comoment_spec (direction cs) (moment cs) (direction s) (moment s)) 0
   \<and> comoment cs s
     = grade_projection
         (pf_comoment \<lparr>pf_cls = CoScrew, pf_direction = direction cs, pf_moment = moment cs\<rparr>
                      \<lparr>pf_cls = Screw, pf_direction = direction s, pf_moment = moment s\<rparr>) 0"
  by (simp add: comoment_def pf_comoment_def comoment_spec_def geometric_neg_left)

section \<open>Addition and comoment on concrete screws\<close>

text \<open>
  In three dimensions: the docstring's screw at \<open>e1\<close> plus the integer 5, and plus a screw
  anchored at \<open>10 e3\<close>, which is moved to \<open>e1\<close> before the fields are added.
\<close>

theorem Screw_add_transports_witness:
  "Screw_add \<lparr>cls = Screw, ref_point = [0, 1, 0, 0, 0, 0, 0, 0 :: int],
         direction = [2, 3, 0, 0, 6, 0, 0, 0], moment = [0, 2, 5, 0, 1, 0, 0, 0]\<rparr> (PyInt 5)
     = Inl (TypeError ''other must be a Screw instance instead of <class 'int'>'')
   \<and> Screw_add \<lparr>cls = Screw, ref_point = [0, 1, 0, 0, 0, 0, 0, 0 :: int],
         direction = [2, 3, 0, 0, 6, 0, 0, 0], moment = [0, 2, 5, 0, 1, 0, 0, 0]\<rparr>
       (Obj \<lparr>cls = Screw, ref_point = [0, 0, 0, 0, 10, 0, 0, 0],
         direction = [1, 0, 0, 1, 0, 0, 0, 0], moment = [0, 0, 2, 0, 0, 0, 0, 0]\<rparr>)
     = Inr \<lparr>cls = Screw, ref_point = [0, 1, 0, 0, 0, 0, 0, 0],
         direction = [3, 3, 0, 1, 6, 0, 0, 0], moment = [0, 1, 7, 0, 11, 0, 0, 10]\<rparr>"
proof -
  let ?P = "[0, 1, 0, 0, 0, 0, 0, 0 :: int]"
  let ?s1 = "\<lparr>cls = Screw, ref_point = ?P,
         direction = [2, 3, 0, 0, 6, 0, 0, 0], moment = [0, 2, 5, 0, 1, 0, 0, 0]\<rparr>"
  let ?s2 = "\<lparr>cls = Screw, ref_point = [0, 0, 0, 0, 10, 0, 0, 0 :: int],
         direction = [1, 0, 0, 1, 0, 0, 0, 0], moment = [0, 0, 2, 0, 0, 0, 0, 0]\<rparr>"
  let ?t = "\<lparr>cls = Screw, ref_point = ?P,
         direction = [1, 0, 0, 1, 0, 0, 0, 0], moment = [0, - 1, 2, 0, 10, 0, 0, 10]\<rparr>"
  have p: "grade_projection (ref_point ?s1) 1 = ref_point ?s1 \<and> isinstance (Obj ?s2) Screw"
    by code_simp
  from Screw_add_transports [of ?s1 "PyInt 5" ?s2, THEN conjunct2, THEN mp, OF p]
  obtain s2' where a: "change_point ?s2 ?P = Inr s2'"
    and b: "Screw_add ?s1 (Obj ?s2)
        = Inr \<lparr>cls = Screw, ref_point = ?P,
               direction = mv_add [2, 3, 0, 0, 6, 0, 0, 0] (direction s2'),
               moment = mv_add [0, 2, 5, 0, 1, 0, 0, 0] (moment s2')\<rparr>"
    by auto
  have "change_point ?s2 ?P = Inr ?t" by code_simp
  with a have "s2' = ?t" by simp
  with b have 1: "Screw_add ?s1 (Obj ?s2)
        = Inr \<lparr>cls = Screw, ref_point = ?P,
         direction = [3, 3, 0, 1, 6, 0, 0, 0], moment = [0, 1, 7, 0, 11, 0, 0, 10]\<rparr>"
    by (simp add: mv_add_def)
  have 2: "Screw_add ?s1 (PyInt 5)
     = Inl (TypeError ''other must be a Screw instance instead of <class 'int'>'')"
    by simp
  from 1 2 show ?thesis by blast
qed

text \<open>
  In three dimensions: a coscrew at \<open>10 e3\<close> plus \<open>None\<close>, and plus a coscrew at the same
  point.
\<close>

theorem CoScrew_add_no_transport_witness:
  "CoScrew_add \<lparr>cls = CoScrew, ref_point = [0, 0, 0, 0, 10, 0, 0, 0 :: int],
         direction = [1, 0, 0, 0, 0, 0, 0, 0], moment = [0, 0, 0, 0, 0, 0, 0, 0]\<rparr> PyNone
     = Inl (TypeError ''other must be a CoScrew instance instead of <class 'NoneType'>'')
   \<and> CoScrew_add \<lparr>cls = CoScrew, ref_point = [0, 0, 0, 0, 10, 0, 0, 0 :: int],
         direction = [1, 0, 0, 0, 0, 0, 0, 0], moment = [0, 0, 0, 0, 0, 0, 0, 0]\<rparr>
       (Obj \<lparr>cls = CoScrew, ref_point = [0, 0, 0, 0, 10, 0, 0, 0],
         direction = [0, 0, 0, 1, 0, 0, 0, 0], moment = [0, 3, 0, 0, 0, 0, 0, 0]\<rparr>)
     = Inr \<lparr>cls = CoScrew, ref_point = [0, 0, 0, 0, 10, 0, 0, 0],
         direction = [1, 0, 0, 1, 0, 0, 0, 0], moment = [0, 3, 0, 0, 0, 0, 0, 0]\<rparr>"
proof -
  let ?P = "[0, 0, 0, 0, 10, 0, 0, 0 :: int]"
  let ?c1 = "\<lparr>cls = CoScrew, ref_point = ?P,
         direction = [1, 0, 0, 0, 0, 0, 0, 0], moment = [0, 0, 0, 0, 0, 0, 0, 0]\<rparr>"
  let ?c2 = "\<lparr>cls = CoScrew, ref_point = ?P,
         direction = [0, 0, 0, 1, 0, 0, 0, 0], moment = [0, 3, 0, 0, 0, 0, 0, 0]\<rparr>"
  have p: "grade_projection (ref_point ?c1) 1 = ref_point ?c1 \<and> isinstance (Obj ?c2) CoScrew"
    by code_simp
  from CoScrew_add_no_transport [of ?c1 PyNone ?c2, THEN conjunct2, THEN mp, OF p]
  have 1: "CoScrew_add ?c1 (Obj ?c2)
      = Inr \<lparr>cls = CoScrew, ref_point = ?P,
         direction = [1, 0, 0, 1, 0, 0, 0, 0], moment = [0, 3, 0, 0, 0, 0, 0, 0]\<rparr>"
    by (simp add: mv_add_def)
  have 2: "CoScrew_add ?c1 PyNone
     = Inl (TypeError ''other must be a CoScrew instance instead of <class 'NoneType'>'')"
    by simp
  from 1 2 show ?thesis by blast
qed

text \<open>
  C7, as stated, fails: two coscrews at the different points \<open>10 e3\<close> and \<open>20 e3\<close> are added
  without any error, field by field, at the point of the left operand.
\<close>

theorem CoScrew_add_mismatch_counterexample:
  "ref_point \<lparr>cls = CoScrew, ref_point = [0, 0, 0, 0, 10, 0, 0, 0 :: int],
         direction = [1, 0, 0, 0, 0, 0, 0, 0], moment = [0, 0, 0, 0, 0, 0, 0, 0]\<rparr>
     \<noteq> ref_point \<lparr>cls = CoScrew, ref_point = [0, 0, 0, 0, 20, 0, 0, 0 :: int],
         direction = [0, 0, 0, 1, 0, 0, 0, 0], moment = [0, 3, 0, 0, 0, 0, 0, 0]\<rparr>
   \<and> CoScrew_add \<lparr>cls = CoScrew, ref_point = [0, 0, 0, 0, 10, 0, 0, 0 :: int],
         direction = [1, 0, 0, 0, 0, 0, 0, 0], moment = [0, 0, 0, 0, 0, 0, 0, 0]\<rparr>
       (Obj \<lparr>cls = CoScrew, ref_point = [0, 0, 0, 0, 20, 0, 0, 0],
         direction = [0, 0, 0, 1, 0, 0, 0, 0], moment = [0, 3, 0, 0, 0, 0, 0, 0]\<rparr>)
     = Inr \<lparr>cls = CoScrew, ref_point = [0, 0, 0, 0, 10, 0, 0, 0],
         direction = [1, 0, 0, 1, 0, 0, 0, 0], moment = [0, 3, 0, 0, 0, 0, 0, 0]\<rparr>"
  by code_simp

text \<open>
  In three dimensions: the point-aware comoment of a coscrew and a screw is the scalar 9,
  the grade-0 part of the point-free comoment of the same fields.
\<close>

theorem comoment_refines_witness:
  "comoment \<lparr>cls = CoScrew, ref_point = [0, 0, 0, 0, 10, 0, 0, 0 :: int],
         direction = [1, 0, 0, 1, 0, 0, 0, 0], moment = [0, 4, 2, 0, 0, 0, 0, 0]\<rparr>
        \<lparr>cls = Screw, ref_point = [0, 0, 0, 0, 10, 0, 0, 0],
         direction = [2, 3, 0, 0, 6, 0, 0, 0], moment = [3, 2, 5, 0, 1, 0, 0, 0]\<rparr>
     = [9, 0, 0, 0, 0, 0, 0, 0]
   \<and> pf_comoment \<lparr>pf_cls = CoScrew,
         pf_direction = [1, 0, 0, 1, 0, 0, 0, 0], pf_moment = [0, 4, 2, 0, 0, 0, 0, 0 :: int]\<rparr>
        \<lparr>pf_cls = Screw,
         pf_direction = [2, 3, 0, 0, 6, 0, 0, 0], pf_moment = [3, 2, 5, 0, 1, 0, 0, 0]\<rparr>
     = [9, 15, 7, 3, 1, - 24, - 12, 1]"
proof -
  let ?cs = "\<lparr>cls = CoScrew, ref_point = [0, 0, 0, 0, 10, 0, 0, 0 :: int],
         direction = [1, 0, 0, 1, 0, 0, 0, 0], moment = [0, 4, 2, 0, 0, 0, 0, 0]\<rparr>"
  let ?s = "\<lparr>cls = Screw, ref_point = [0, 0, 0, 0, 10, 0, 0, 0 :: int],
         direction = [2, 3, 0, 0, 6, 0, 0, 0], moment = [3, 2, 5, 0, 1, 0, 0, 0]\<rparr>"
  let ?pcs = "\<lparr>pf_cls = CoScrew,
         pf_direction = [1, 0, 0, 1, 0, 0, 0, 0], pf_moment = [0, 4, 2, 0, 0, 0, 0, 0 :: int]\<rparr>"
  let ?ps = "\<lparr>pf_cls = Screw,
         pf_direction = [2, 3, 0, 0, 6, 0, 0, 0], pf_moment = [3, 2, 5, 0, 1, 0, 0, 0 :: int]\<rparr>"
  have 1: "pf_comoment ?pcs ?ps = [9, 15, 7, 3, 1, - 24, - 12, 1]" by code_simp
  have 2: "grade_projection [9, 15, 7, 3, 1, - 24, - 12, 1 :: int] 0 = [9, 0, 0, 0, 0, 0, 0, 0]"
    by code_simp
  from comoment_refines [of ?cs ?s]
  have "comoment ?cs ?s = grade_projection (pf_comoment ?pcs ?ps) 0" by simp
  with 1 2 show ?thesis by simp
qed


section \<open>The wedge product of two screws\<close>

text \<open>
  In \<open>gscrew/screw.py\<close> the direction of the product is written with both outer products in
  parentheses, so two screws at one reference point are multiplied by the formula
  \<open>(direction ^ other.moment) + (grade_involution(moment) ^ other.direction)\<close>.
\<close>

lemma Screw_xor_same_point:
  assumes "grade_projection (ref_point s1) 1 = ref_point s1"
    and "isinstance (Obj s2) Screw" and "ref_point s2 = ref_point s1"
  shows "Screw_xor s1 (Obj s2)
    = Inr \<lparr>cls = Screw, ref_point = ref_point s1,
           direction = mv_add (outer (direction s1) (moment s2))
                              (outer (grade_involution (moment s1)) (direction s2)),
           moment = outer (moment s1) (moment s2)\<rparr>"
  using assms by (simp add: ScrewBase_init_def)

text \<open>
  C2. The wedge product of two screws has the direction
  \<open>(s1.direction ^ s2.moment) + (grade_involution(s1.moment) ^ s2.direction)\<close> in both
  variants. The point-free \<open>Screw.__xor__\<close> of \<open>src/screw.py\<close> leaves the parentheses out, and
  Python reads \<open>d ^ m' + gi(m) ^ d'\<close> as \<open>(d ^ (m' + gi(m))) ^ d'\<close>. In the algebra of three
  dimensions, for the screws \<open>Screw(e1, e2)\<close> and \<open>Screw(e2, e3)\<close> the point-free product has
  the direction \<open>- e123\<close>, while the formula gives \<open>e13\<close>, which is also what the point-aware
  product at the origin returns. The moments agree.
\<close>

theorem pf_Screw_xor_regroups:
  "pf_Screw_xor \<lparr>pf_cls = Screw, pf_direction = [0, 1, 0, 0, 0, 0, 0, 0 :: int],
                 pf_moment = [0, 0, 1, 0, 0, 0, 0, 0]\<rparr>
       (PFObj \<lparr>pf_cls = Screw, pf_direction = [0, 0, 1, 0, 0, 0, 0, 0],
                pf_moment = [0, 0, 0, 0, 1, 0, 0, 0]\<rparr>)
     = Inr \<lparr>pf_cls = Screw, pf_direction = [0, 0, 0, 0, 0, 0, 0, - 1],
            pf_moment = [0, 0, 0, 0, 0, 0, 1, 0]\<rparr>
   \<and> mv_add (outer [0, 1, 0, 0, 0, 0, 0, 0 :: int] [0, 0, 0, 0, 1, 0, 0, 0])
            (outer (grade_involution [0, 0, 1, 0, 0, 0, 0, 0]) [0, 0, 1, 0, 0, 0, 0, 0])
     = [0, 0, 0, 0, 0, 1, 0, 0]
   \<and> Screw_xor \<lparr>cls = Screw, ref_point = [0, 0, 0, 0, 0, 0, 0, 0 :: int],
                 direction = [0, 1, 0, 0, 0, 0, 0, 0], moment = [0, 0, 1, 0, 0, 0, 0, 0]\<rparr>
       (Obj \<lparr>cls = Screw, ref_point = [0, 0, 0, 0, 0, 0, 0, 0],
              direction = [0, 0, 1, 0, 0, 0, 0, 0], moment = [0, 0, 0, 0, 1, 0, 0, 0]\<rparr>)
     = Inr \<lparr>cls = Screw, ref_point = [0, 0, 0, 0, 0, 0, 0, 0],
            direction = [0, 0, 0, 0, 0, 1, 0, 0], moment = [0, 0, 0, 0, 0, 0, 1, 0]\<rparr>"
  by code_simp


section \<open>The position of the end effector\<close>

text \<open>
  Whatever the evaluation point, the translation that the script reads is the moment that the
  total comotor had before the call of \<open>change_point\<close>.
\<close>

lemma total_translation_is_moment:
  "total_translation tot origin = Inr t \<Longrightarrow> t = moment tot"
  by (auto simp add: total_translation_def split: sum.splits)

text \<open>
  C3. The total translation is the moment of the total comotor after its transport to the
  origin, and the final position is the grade-1 part of
  \<open>reverse(R) * P * R + 2 * reverse(R) * total_translation\<close>. The script drops the screw that
  \<open>change_point\<close> returns. For the comotor \<open>CoScrew(10 e3, 1, 0)\<close> of a joint at rest, the
  end effector \<open>40 e3\<close> and the origin \<open>0\<close>, the transported comotor has the moment \<open>10 e3\<close>,
  but the script takes the translation \<open>0\<close> and prints \<open>40 e3\<close>, where the formula with the
  transported moment gives \<open>60 e3\<close>.
\<close>

theorem total_translation_not_transported:
  "change_point \<lparr>cls = CoScrew, ref_point = [0, 0, 0, 0, 10, 0, 0, 0 :: int],
                  direction = [1, 0, 0, 0, 0, 0, 0, 0], moment = [0, 0, 0, 0, 0, 0, 0, 0]\<rparr>
       [0, 0, 0, 0, 0, 0, 0, 0]
     = Inr \<lparr>cls = CoScrew, ref_point = [0, 0, 0, 0, 0, 0, 0, 0],
            direction = [1, 0, 0, 0, 0, 0, 0, 0], moment = [0, 0, 0, 0, 10, 0, 0, 0]\<rparr>
   \<and> total_translation
       \<lparr>cls = CoScrew, ref_point = [0, 0, 0, 0, 10, 0, 0, 0 :: int],
        direction = [1, 0, 0, 0, 0, 0, 0, 0], moment = [0, 0, 0, 0, 0, 0, 0, 0]\<rparr>
       [0, 0, 0, 0, 0, 0, 0, 0]
     = Inr [0, 0, 0, 0, 0, 0, 0, 0]
   \<and> final_position
       \<lparr>cls = CoScrew, ref_point = [0, 0, 0, 0, 10, 0, 0, 0 :: int],
        direction = [1, 0, 0, 0, 0, 0, 0, 0], moment = [0, 0, 0, 0, 0, 0, 0, 0]\<rparr>
       [0, 0, 0, 0, 40, 0, 0, 0] [0, 0, 0, 0, 0, 0, 0, 0]
     = Inr [0, 0, 0, 0, 40, 0, 0, 0]
   \<and> grade_projection
       (mv_add (geometric (geometric (reversion [1, 0, 0, 0, 0, 0, 0, 0 :: int])
                                     [0, 0, 0, 0, 40, 0, 0, 0]) [1, 0, 0, 0, 0, 0, 0, 0])
               (geometric (mv_smul 2 (reversion [1, 0, 0, 0, 0, 0, 0, 0]))
                          [0, 0, 0, 0, 10, 0, 0, 0])) 1
     = [0, 0, 0, 0, 60, 0, 0, 0]"
  by code_simp


section \<open>The composition of the joints\<close>

text \<open>
  The loop reads the indices \<open>nb_joints - 2\<close> down to \<open>1\<close>, so the comotor of the base joint,
  at index \<open>0\<close>, has no influence on the total of a chain of two or more joints.
\<close>

lemma py_index_Cons_pos: "1 \<le> k \<Longrightarrow> py_index (j # js) k = py_index (j' # js) k"
  by (auto simp add: py_index_def nth_Cons')

lemma py_index_Cons_last:
  "js \<noteq> [] \<Longrightarrow> py_index (j # js) (- 1) = py_index (j' # js) (- 1)"
  by (auto simp add: py_index_def nth_Cons')

lemma compose_loop_ignores_base:
  "\<forall>i\<in>set idxs. i \<le> nb - 2 \<Longrightarrow>
   compose_loop cf (j # js) nb idxs t = compose_loop cf (j' # js) nb idxs t"
proof (induction idxs arbitrary: t)
  case Nil
  show ?case by simp
next
  case (Cons i idxs)
  then have "1 \<le> nb - i - 1" by simp
  then have "py_index (j # js) (nb - i - 1) = py_index (j' # js) (nb - i - 1)"
    by (rule py_index_Cons_pos)
  with Cons show ?case by (simp split: sum.splits)
qed

lemma total_comotor_ignores_base:
  assumes "js \<noteq> []"
  shows "total_comotor cf (j # js) nb = total_comotor cf (j' # js) nb"
proof -
  have "\<forall>i\<in>set (py_range 1 (nb - 1)). i \<le> nb - 2" by (auto simp add: py_range_def)
  then have "\<And>t. compose_loop cf (j # js) nb (py_range 1 (nb - 1)) t
      = compose_loop cf (j' # js) nb (py_range 1 (nb - 1)) t"
    by (rule compose_loop_ignores_base)
  with py_index_Cons_last [OF assms, of j j'] show ?thesis
    by (simp add: total_comotor_def split: sum.splits)
qed

text \<open>
  C4. The fold starts from the comotor of the last joint and combines it with each of the
  \<open>n - 1\<close> joints before it, down to the base joint. The loop of the script runs over
  \<open>range(1, nb_joints - 1)\<close>, which stops one index short. With a composition that records
  its operands in order, the chain of the six joints \<open>0\<close> to \<open>5\<close> yields the joints
  \<open>5, 4, 3, 2, 1\<close>: the base joint \<open>0\<close> is never combined.
\<close>

theorem total_comotor_skips_base:
  "total_comotor (\<lambda>tot joint. Inr (tot @ joint))
     [[0 :: nat], [1], [2], [3], [4], [5]] 6 = Inr [5, 4, 3, 2, 1]"
  by code_simp

end
